theory Spec2Isabelle
  imports Main
begin

section \<open>Go standard-library functions used by the translators\<close>

text \<open>
  Go strings are byte sequences; they are modelled as \<open>string\<close> (a list of 8-bit
  characters). Go's \<open>int\<close> is taken to be the 64-bit type of the usual build targets;
  integers are modelled as \<open>int\<close>, with the clamping of \<open>strconv\<close> written out.
\<close>

subsection \<open>strings.ReplaceAll, strings.Contains, strings.Split (one-byte pattern)\<close>

text \<open>\<open>strings.ReplaceAll(s, old, new)\<close> for a pattern \<open>old\<close> of one byte.\<close>

fun ReplaceAll :: "string \<Rightarrow> char \<Rightarrow> string \<Rightarrow> string" where
  "ReplaceAll [] old new = []"
| "ReplaceAll (c # cs) old new =
     (if c = old then new @ ReplaceAll cs old new else c # ReplaceAll cs old new)"

text \<open>\<open>strings.Contains(s, sep)\<close> for a separator of one byte.\<close>

definition Contains :: "string \<Rightarrow> char \<Rightarrow> bool" where
  "Contains s sep = (sep \<in> set s)"

text \<open>
  \<open>strings.Split(s, sep)\<close> for a separator of one byte: all the substrings between
  the separators; the empty string gives one empty part.
\<close>

fun Split :: "string \<Rightarrow> char \<Rightarrow> string list" where
  "Split [] sep = [[]]"
| "Split (c # cs) sep =
     (if c = sep then [] # Split cs sep
      else (case Split cs sep of
              [] \<Rightarrow> [[c]]
            | part # parts \<Rightarrow> (c # part) # parts))"

subsection \<open>strings.TrimSpace\<close>

text \<open>
  \<open>strings.TrimSpace\<close> removes leading and trailing white space as Unicode defines it
  (\<open>unicode.IsSpace\<close>). On the UTF-8 bytes of a Go string these are the six ASCII
  bytes of \<open>asciiSpace\<close> and the encodings of U+0085, U+00A0, U+1680, U+2000 to U+200A,
  U+2028, U+2029, U+202F, U+205F and U+3000. A byte that does not start one of these
  encodings decodes to a rune that is no space and stops the trimming.
\<close>

definition space_runes :: "string list" where
  "space_runes =
     [[CHR 0x09], [CHR 0x0A], [CHR 0x0B], [CHR 0x0C], [CHR 0x0D], [CHR 0x20],
      [CHR 0xC2, CHR 0x85], [CHR 0xC2, CHR 0xA0],
      [CHR 0xE1, CHR 0x9A, CHR 0x80],
      [CHR 0xE2, CHR 0x80, CHR 0x80], [CHR 0xE2, CHR 0x80, CHR 0x81],
      [CHR 0xE2, CHR 0x80, CHR 0x82], [CHR 0xE2, CHR 0x80, CHR 0x83],
      [CHR 0xE2, CHR 0x80, CHR 0x84], [CHR 0xE2, CHR 0x80, CHR 0x85],
      [CHR 0xE2, CHR 0x80, CHR 0x86], [CHR 0xE2, CHR 0x80, CHR 0x87],
      [CHR 0xE2, CHR 0x80, CHR 0x88], [CHR 0xE2, CHR 0x80, CHR 0x89],
      [CHR 0xE2, CHR 0x80, CHR 0x8A],
      [CHR 0xE2, CHR 0x80, CHR 0xA8], [CHR 0xE2, CHR 0x80, CHR 0xA9],
      [CHR 0xE2, CHR 0x80, CHR 0xAF], [CHR 0xE2, CHR 0x81, CHR 0x9F],
      [CHR 0xE3, CHR 0x80, CHR 0x80]]"

text \<open>
  \<open>strip_rune ws s\<close> removes one leading rune of \<open>s\<close> whose encoding is in \<open>ws\<close>,
  when there is one.
\<close>

fun strip_rune :: "string list \<Rightarrow> string \<Rightarrow> string option" where
  "strip_rune [] s = None"
| "strip_rune (w # ws) s =
     (if w \<noteq> [] \<and> take (length w) s = w then Some (drop (length w) s)
      else strip_rune ws s)"

lemma strip_rune_shorter: "strip_rune ws s = Some s' \<Longrightarrow> length s' < length s"
proof (induction ws)
  case Nil
  then show ?case by simp
next
  case (Cons w ws)
  show ?case
  proof (cases "w \<noteq> [] \<and> take (length w) s = w")
    case True
    then have "s \<noteq> []" by auto
    moreover from True have "0 < length w" by simp
    moreover from True Cons.prems have "s' = drop (length w) s" by simp
    ultimately show ?thesis by simp
  next
    case False
    with Cons show ?thesis by auto
  qed
qed

function TrimLeft :: "string list \<Rightarrow> string \<Rightarrow> string" where
  "TrimLeft ws s = (case strip_rune ws s of None \<Rightarrow> s | Some s' \<Rightarrow> TrimLeft ws s')"
  by pat_completeness auto
termination
  by (relation "measure (\<lambda>(ws, s). length s)") (auto dest: strip_rune_shorter)

declare TrimLeft.simps [simp del]

text \<open>Trailing white space: the same on the reversed bytes.\<close>

definition TrimSpace :: "string \<Rightarrow> string" where
  "TrimSpace s = rev (TrimLeft (map rev space_runes) (rev (TrimLeft space_runes s)))"

subsection \<open>hex.EncodeToString\<close>

definition hextable :: "string" where
  "hextable = ''0123456789abcdef''"

fun EncodeToString :: "string \<Rightarrow> string" where
  "EncodeToString [] = []"
| "EncodeToString (c # cs) =
     hextable ! (of_char c div 16) # hextable ! (of_char c mod 16) # EncodeToString cs"

subsection \<open>strconv.Atoi\<close>

datatype NumError = ErrSyntax | ErrRange

definition maxUint64 :: nat where
  "maxUint64 = 18446744073709551615"

definition maxInt64 :: int where
  "maxInt64 = 9223372036854775807"

definition minInt64 :: int where
  "minInt64 = - 9223372036854775808"

definition is_digit :: "char \<Rightarrow> bool" where
  "is_digit c = (48 \<le> (of_char c :: nat) \<and> (of_char c :: nat) \<le> 57)"

definition digit_val :: "char \<Rightarrow> nat" where
  "digit_val c = of_char c - 48"

text \<open>
  The digit loop of \<open>strconv.ParseUint(s, 10, 64)\<close>: a byte that is no decimal digit
  ends it with a syntax error and the value 0; a value that leaves the 64 bits ends it
  at once with a range error and the largest value.
\<close>

fun ParseUint_loop :: "nat \<Rightarrow> string \<Rightarrow> nat \<times> NumError option" where
  "ParseUint_loop n [] = (n, None)"
| "ParseUint_loop n (c # cs) =
     (if \<not> is_digit c then (0, Some ErrSyntax)
      else if n \<ge> maxUint64 div 10 + 1 then (maxUint64, Some ErrRange)
      else if n * 10 + digit_val c > maxUint64 then (maxUint64, Some ErrRange)
      else ParseUint_loop (n * 10 + digit_val c) cs)"

definition ParseUint :: "string \<Rightarrow> nat \<times> NumError option" where
  "ParseUint s = (if s = [] then (0, Some ErrSyntax) else ParseUint_loop 0 s)"

text \<open>\<open>strconv.ParseInt(s, 10, 0)\<close>: an optional sign, then \<open>ParseUint\<close>, then the clamp.\<close>

definition ParseInt :: "string \<Rightarrow> int \<times> NumError option" where
  "ParseInt s =
     (if s = [] then (0, Some ErrSyntax)
      else
        let neg = (hd s = CHR ''-'');
            s' = (if hd s = CHR ''+'' \<or> hd s = CHR ''-'' then tl s else s);
            (un, err) = ParseUint s'
        in if err = Some ErrSyntax then (0, err)
           else if \<not> neg \<and> int un \<ge> maxInt64 + 1 then (maxInt64, Some ErrRange)
           else if neg \<and> int un > maxInt64 + 1 then (minInt64, Some ErrRange)
           else (if neg then - int un else int un, None))"

text \<open>
  \<open>strconv.Atoi(s)\<close> is \<open>ParseInt(s, 10, 0)\<close>; its fast path for short strings
  computes the same value and error.
\<close>

definition Atoi :: "string \<Rightarrow> int \<times> NumError option" where
  "Atoi s = ParseInt s"

subsection \<open>fmt.Sprintf with the verb d\<close>

definition digit_char :: "nat \<Rightarrow> char" where
  "digit_char d = ''0123456789'' ! d"

function show_nat :: "nat \<Rightarrow> string" where
  "show_nat n = (if n < 10 then [digit_char n] else show_nat (n div 10) @ [digit_char (n mod 10)])"
  by pat_completeness auto
termination
  by (relation "measure id") auto

declare show_nat.simps [simp del]

definition Sprintf_d :: "int \<Rightarrow> string" where
  "Sprintf_d i = (if i < 0 then CHR ''-'' # show_nat (nat (- i)) else show_nat (nat i))"

subsection \<open>int(math.Pow(10, float64(n)))\<close>

text \<open>
  \<open>math.Pow(10, n)\<close> is exact in float64 while \<open>10 ^ n\<close> is below \<open>2 ^ 53 * 2 ^ n\<close>
  with an odd part \<open>5 ^ n\<close> below \<open>2 ^ 53\<close>, that is up to \<open>n = 22\<close>, and its
  conversion to \<open>int\<close> is exact while the value fits 64 bits, up to \<open>n = 18\<close>. Beyond
  that Go leaves the conversion to the implementation: it is the parameter \<open>ovf\<close>.
\<close>

definition pow10_int :: "(nat \<Rightarrow> int) \<Rightarrow> nat \<Rightarrow> int" where
  "pow10_int ovf n = (if n \<le> 18 then 10 ^ n else ovf n)"

section \<open>The data model\<close>

text \<open>
  The node kinds and mutabilities are the values of the protobuf enumerations that the
  translators name; \<open>NT_DEFAULT\<close> and \<open>M_DEFAULT\<close> are the zero values of fields
  that were never assigned.
\<close>

datatype NodeType =
    NT_DEFAULT | IDENTIFIER | LITERAL | BOOLEAN | STRING | NUMBER | HEX_STRING
  | PLACEHOLDER_STATEMENT | VARIABLE_DECLARATION | ELEMENTARY_TYPE_NAME
  | MAPPING_TYPE_NAME | USER_DEFINED_PATH_NAME | IDENTIFIER_PATH | OTHER_NODE_TYPE nat

datatype Mutability = M_DEFAULT | NONPAYABLE | PAYABLE

text \<open>
  A panic of the translators is a value: the three explicit \<open>panic(...)\<close> calls of the
  source, and the run-time panics of Go (a nil pointer dereference, a failed type
  assertion, an index out of range).
\<close>

datatype error =
    FunctionTypeNameNotSupported
  | UnknownTypeName
  | ExpressionStatementChildNotRecognized
  | NilDereference
  | InterfaceConversion
  | IndexOutOfRange

definition construction_error :: "error \<Rightarrow> bool" where
  "construction_error e =
     (e = FunctionTypeNameNotSupported \<or> e = UnknownTypeName \<or> e = ExpressionStatementChildNotRecognized)"

record TypeDescription =
  TypeIdentifier :: string
  TypeString :: string

record SrcNode =
  src_Id :: int
  Line :: int
  Column :: int
  Start :: int
  End :: int
  Length :: int
  ParentIndex :: int

definition zero_SrcNode :: SrcNode where
  "zero_SrcNode = \<lparr>src_Id = 0, Line = 0, Column = 0, Start = 0, End = 0, Length = 0, ParentIndex = 0\<rparr>"

record PathNode =
  pn_Id :: int
  pn_Name :: string
  pn_NodeType :: NodeType
  pn_ReferencedDeclaration :: int
  pn_Src :: SrcNode

text \<open>
  The struct \<open>TypeName\<close> refers to itself (\<open>KeyType\<close>, \<open>ValueType\<close>), so it is a
  datatype with one selector for each field; a nil pointer is \<open>None\<close>.
\<close>

datatype TypeName = TypeName
  (tn_Id : int)
  (tn_NodeType : NodeType)
  (tn_Src : SrcNode)
  (tn_Name : string)
  (tn_TypeDescription : "TypeDescription option")
  (KeyType : "TypeName option")
  (ValueType : "TypeName option")
  (PathNode : "PathNode option")
  (StateMutability : Mutability)
  (tn_ReferencedDeclaration : int)

text \<open>Assignments to the fields of a \<open>TypeName\<close>.\<close>

primrec set_Id :: "int \<Rightarrow> TypeName \<Rightarrow> TypeName" where
  "set_Id v (TypeName i nt src n td k vl pn sm rd) = TypeName v nt src n td k vl pn sm rd"

primrec set_NodeType :: "NodeType \<Rightarrow> TypeName \<Rightarrow> TypeName" where
  "set_NodeType v (TypeName i nt src n td k vl pn sm rd) = TypeName i v src n td k vl pn sm rd"

primrec set_Src :: "SrcNode \<Rightarrow> TypeName \<Rightarrow> TypeName" where
  "set_Src v (TypeName i nt src n td k vl pn sm rd) = TypeName i nt v n td k vl pn sm rd"

primrec set_Name :: "string \<Rightarrow> TypeName \<Rightarrow> TypeName" where
  "set_Name v (TypeName i nt src n td k vl pn sm rd) = TypeName i nt src v td k vl pn sm rd"

primrec set_TypeDescription :: "TypeDescription option \<Rightarrow> TypeName \<Rightarrow> TypeName" where
  "set_TypeDescription v (TypeName i nt src n td k vl pn sm rd) = TypeName i nt src n v k vl pn sm rd"

primrec set_KeyType :: "TypeName option \<Rightarrow> TypeName \<Rightarrow> TypeName" where
  "set_KeyType v (TypeName i nt src n td k vl pn sm rd) = TypeName i nt src n td v vl pn sm rd"

primrec set_ValueType :: "TypeName option \<Rightarrow> TypeName \<Rightarrow> TypeName" where
  "set_ValueType v (TypeName i nt src n td k vl pn sm rd) = TypeName i nt src n td k v pn sm rd"

primrec set_PathNode :: "PathNode option \<Rightarrow> TypeName \<Rightarrow> TypeName" where
  "set_PathNode v (TypeName i nt src n td k vl pn sm rd) = TypeName i nt src n td k vl v sm rd"

primrec set_StateMutability :: "Mutability \<Rightarrow> TypeName \<Rightarrow> TypeName" where
  "set_StateMutability v (TypeName i nt src n td k vl pn sm rd) = TypeName i nt src n td k vl pn v rd"

primrec set_ReferencedDeclaration :: "int \<Rightarrow> TypeName \<Rightarrow> TypeName" where
  "set_ReferencedDeclaration v (TypeName i nt src n td k vl pn sm rd) = TypeName i nt src n td k vl pn sm v"

record PrimaryExpression =
  pe_Id :: int
  pe_NodeType :: NodeType
  Kind :: NodeType
  Value :: string
  HexValue :: string
  pe_Src :: SrcNode
  pe_Name :: string
  pe_TypeDescription :: "TypeDescription option"
  OverloadedDeclarations :: "int list"
  pe_ReferencedDeclaration :: int
  IsPure :: bool
  ArgumentTypes :: "TypeDescription option list"

subsection \<open>The builder: identifiers and the Resolver\<close>

text \<open>
  Modelled from the spec: \<open>ASTBuilder.GetNextID\<close> is not among the sources. The spec
  (4.1) asks of \<open>nextId()\<close> a strictly increasing integer, unique in one run: a counter
  that is returned and then incremented.
\<close>

record ASTBuilder =
  nextID :: int

definition GetNextID :: "ASTBuilder \<Rightarrow> int \<times> ASTBuilder" where
  "GetNextID b = (nextID b, b\<lparr>nextID := nextID b + 1\<rparr>)"

text \<open>
  The Resolver is an external capability (spec 4.3): \<open>ResolveByNode(node, name)\<close>
  returns a declaration node and its type description, or nil. Of the declaration only
  \<open>GetId()\<close> is read, so the model returns that identifier; the type description it
  returns may be nil. It is a parameter \<open>R\<close> of every translator.
\<close>

datatype Node = TypeNameNode TypeName | PrimaryExpressionNode PrimaryExpression

type_synonym Resolver = "Node \<Rightarrow> string \<Rightarrow> (int \<times> TypeDescription option) option"

text \<open>
  \<open>normalizeTypeDescription\<close> is not among the sources either: it is the parameter
  \<open>norm\<close>, from a spelling to the pair (type string, type identifier).
\<close>

type_synonym Normalizer = "string \<Rightarrow> string \<times> string"

subsection \<open>The parse tree\<close>

text \<open>
  The productions of the generated parser, with what the translators read of them: the
  text (\<open>GetText()\<close>), the start and stop tokens, and the children. An accessor of a
  production returns the first child of its kind, as the generated code does.
\<close>

record Token =
  tok_Line :: int
  tok_Column :: int
  tok_Start :: int
  tok_Stop :: int

datatype ElementaryTypeNameContext = ElementaryTypeNameContext (etn_Text : string)

record IdentifierContext =
  id_Text :: string
  id_Start :: Token
  id_Stop :: Token

record IdentifierPathContext =
  ip_Text :: string
  ip_Start :: Token
  ip_Stop :: Token
  AllIdentifier :: "IdentifierContext list"

record MappingKeyTypeContext =
  mk_Text :: string
  mk_Start :: Token
  mk_Stop :: Token
  mk_ElementaryTypeName :: "ElementaryTypeNameContext option"

datatype TypeNameContext = TypeNameContext
    (tnc_Text : string) (tnc_Start : Token) (tnc_Stop : Token) (GetChildren : "TypeNameChild list")
and TypeNameChild =
    ElementaryTypeNameChild ElementaryTypeNameContext
  | MappingTypeChild MappingTypeContext
  | IdentifierPathChild IdentifierPathContext
  | TypeNameChild TypeNameContext
  | FunctionTypeNameChild string
  | ExpressionChild string
  | TerminalNodeImpl string
and MappingTypeContext = MappingTypeContext
    (GetKey : MappingKeyTypeContext) (GetValue : TypeNameContext)

fun first_ElementaryTypeName :: "TypeNameChild list \<Rightarrow> ElementaryTypeNameContext option" where
  "first_ElementaryTypeName [] = None"
| "first_ElementaryTypeName (c # cs) =
     (case c of ElementaryTypeNameChild e \<Rightarrow> Some e | _ \<Rightarrow> first_ElementaryTypeName cs)"

fun first_MappingType :: "TypeNameChild list \<Rightarrow> MappingTypeContext option" where
  "first_MappingType [] = None"
| "first_MappingType (c # cs) =
     (case c of MappingTypeChild m \<Rightarrow> Some m | _ \<Rightarrow> first_MappingType cs)"

fun first_FunctionTypeName :: "TypeNameChild list \<Rightarrow> string option" where
  "first_FunctionTypeName [] = None"
| "first_FunctionTypeName (c # cs) =
     (case c of FunctionTypeNameChild f \<Rightarrow> Some f | _ \<Rightarrow> first_FunctionTypeName cs)"

fun first_IdentifierPath :: "TypeNameChild list \<Rightarrow> IdentifierPathContext option" where
  "first_IdentifierPath [] = None"
| "first_IdentifierPath (c # cs) =
     (case c of IdentifierPathChild p \<Rightarrow> Some p | _ \<Rightarrow> first_IdentifierPath cs)"

definition ElementaryTypeName :: "TypeNameContext \<Rightarrow> ElementaryTypeNameContext option" where
  "ElementaryTypeName ctx = first_ElementaryTypeName (GetChildren ctx)"

definition MappingType :: "TypeNameContext \<Rightarrow> MappingTypeContext option" where
  "MappingType ctx = first_MappingType (GetChildren ctx)"

definition FunctionTypeName :: "TypeNameContext \<Rightarrow> string option" where
  "FunctionTypeName ctx = first_FunctionTypeName (GetChildren ctx)"

definition IdentifierPath :: "TypeNameContext \<Rightarrow> IdentifierPathContext option" where
  "IdentifierPath ctx = first_IdentifierPath (GetChildren ctx)"

text \<open>
  A literal has one accessor for each kind of literal, holding the text of that child;
  a primary expression has its text, its tokens, the text of its identifier child and
  its literal child.
\<close>

record LiteralContext =
  BooleanLiteral :: "string option"
  StringLiteral :: "string option"
  NumberLiteral :: "string option"
  HexStringLiteral :: "string option"

record PrimaryExpressionContext =
  pec_Text :: string
  pec_Start :: Token
  pec_Stop :: Token
  Identifier :: "string option"
  Literal :: "LiteralContext option"

subsection \<open>The nodes of the enclosing scopes\<close>

text \<open>
  Of the nodes around a primary expression, declared in files that are not among the
  sources, the model keeps the fields that \<open>PrimaryExpression.Parse\<close> reads through
  their getters. A getter that returns a pointer gives an option.
\<close>

record Parameter =
  param_Id :: int
  param_Name :: string
  param_TypeName :: "TypeName option"

record ParameterList =
  Parameters :: "Parameter list"

datatype FnNode =
    Constructor "ParameterList option"
  | Function "ParameterList option"
  | OtherFnNode

record Declaration =
  decl_Id :: int
  decl_Name :: string
  decl_TypeName :: "TypeName option"

record VariableDeclaration =
  vd_Id :: int
  Declarations :: "Declaration list"

text \<open>
  A statement of a body is a \<open>*VariableDeclaration\<close>, whose \<open>GetType()\<close> is
  \<open>VARIABLE_DECLARATION\<close>, or a node of another Go type with its \<open>GetType()\<close>.
\<close>

datatype Statement =
    VariableDeclarationStatement VariableDeclaration
  | OtherStatement NodeType

record BodyNode =
  body_Id :: int
  Statements :: "Statement list"

text \<open>
  The enclosing expression node: a \<open>*FunctionCall\<close> with its identifier, its type
  description and the type descriptions of its arguments, or another node.
\<close>

datatype ExpNode =
    FunctionCall int "TypeDescription option" "TypeDescription option list"
  | OtherExpNode int "TypeDescription option"

fun exp_Id :: "ExpNode \<Rightarrow> int" where
  "exp_Id (FunctionCall i td args) = i"
| "exp_Id (OtherExpNode i td) = i"

fun exp_TypeDescription :: "ExpNode \<Rightarrow> TypeDescription option" where
  "exp_TypeDescription (FunctionCall i td args) = td"
| "exp_TypeDescription (OtherExpNode i td) = td"

section \<open>The primary-expression translator (ast/expression_statement.go)\<close>

definition NewPrimaryExpression :: "ASTBuilder \<Rightarrow> PrimaryExpression \<times> ASTBuilder" where
  "NewPrimaryExpression b =
     (let (i, b') = GetNextID b
      in (\<lparr>pe_Id = i, pe_NodeType = IDENTIFIER, Kind = NT_DEFAULT, Value = [], HexValue = [],
           pe_Src = zero_SrcNode, pe_Name = [], pe_TypeDescription = None,
           OverloadedDeclarations = [], pe_ReferencedDeclaration = 0, IsPure = False,
           ArgumentTypes = []\<rparr>, b'))"

text \<open>
  The source span of \<open>Parse\<close>. The parent is the expression node, else the variable
  declaration, else the body node, whose \<open>GetId()\<close> dereferences it.
\<close>

definition SrcOf :: "int \<Rightarrow> Token \<Rightarrow> Token \<Rightarrow> int \<Rightarrow> SrcNode" where
  "SrcOf i start stop parent =
     \<lparr>src_Id = i, Line = tok_Line start, Column = tok_Column start, Start = tok_Start start,
      End = tok_Stop stop, Length = tok_Stop stop - tok_Start start + 1, ParentIndex = parent\<rparr>"

definition ParentIndexOf ::
  "ExpNode option \<Rightarrow> VariableDeclaration option \<Rightarrow> BodyNode option \<Rightarrow> error + int" where
  "ParentIndexOf expNode vDeclar bodyNode =
     (case expNode of
        Some e \<Rightarrow> Inr (exp_Id e)
      | None \<Rightarrow>
          (case vDeclar of
             Some v \<Rightarrow> Inr (vd_Id v)
           | None \<Rightarrow>
               (case bodyNode of
                  Some bd \<Rightarrow> Inr (body_Id bd)
                | None \<Rightarrow> Inl NilDereference)))"

text \<open>The three magic globals, by the text of the production.\<close>

definition magic_message :: TypeDescription where
  "magic_message = \<lparr>TypeIdentifier = ''t_magic_message'', TypeString = ''msg''\<rparr>"

definition magic_block :: TypeDescription where
  "magic_block = \<lparr>TypeIdentifier = ''t_magic_block'', TypeString = ''block''\<rparr>"

definition magic_globals ::
  "TypeDescription option \<Rightarrow> PrimaryExpressionContext \<Rightarrow> PrimaryExpression \<Rightarrow> PrimaryExpression" where
  "magic_globals unit_td ctx p =
     (let p1 = (if pec_Text ctx = ''msg'' then p\<lparr>pe_TypeDescription := Some magic_message\<rparr> else p);
          p2 = (if pec_Text ctx = ''block'' then p1\<lparr>pe_TypeDescription := Some magic_block\<rparr> else p1)
      in if pec_Text ctx = ''this'' then p2\<lparr>pe_TypeDescription := unit_td\<rparr> else p2)"

text \<open>The argument types, when the expression node is a function call.\<close>

definition argument_types :: "ExpNode option \<Rightarrow> PrimaryExpression \<Rightarrow> PrimaryExpression" where
  "argument_types expNode p =
     (case expNode of
        Some (FunctionCall i td args) \<Rightarrow> p\<lparr>ArgumentTypes := ArgumentTypes p @ args\<rparr>
      | _ \<Rightarrow> p)"

text \<open>
  The loop over the parameters of the enclosing function or constructor: it stops at the
  first parameter of the name, and records it when the parameter has a type name.
\<close>

fun match_parameters :: "Parameter list \<Rightarrow> PrimaryExpression \<Rightarrow> PrimaryExpression" where
  "match_parameters [] p = p"
| "match_parameters (param # params) p =
     (if param_Name param = pe_Name p then
        (case param_TypeName param of
           Some tn \<Rightarrow> p\<lparr>pe_TypeDescription := tn_TypeDescription tn,
                        pe_ReferencedDeclaration := pe_Id p\<rparr>
         | None \<Rightarrow> p)
      else match_parameters params p)"

definition enclosing_parameters :: "FnNode option \<Rightarrow> PrimaryExpression \<Rightarrow> error + PrimaryExpression" where
  "enclosing_parameters fnNode p =
     (case fnNode of
        None \<Rightarrow> Inr p
      | Some (Constructor pl) \<Rightarrow>
          (case pl of
             None \<Rightarrow> Inl NilDereference
           | Some l \<Rightarrow> Inr (match_parameters (Parameters l) p))
      | Some (Function pl) \<Rightarrow>
          (case pl of
             None \<Rightarrow> Inr p
           | Some l \<Rightarrow> Inr (match_parameters (Parameters l) p))
      | Some OtherFnNode \<Rightarrow> Inr p)"

text \<open>
  The loop over the statements of the body: in every variable declaration statement the
  first declaration of the name is recorded, so a later statement overwrites an earlier
  one. \<open>declaration.GetTypeName().GetTypeDescription()\<close> dereferences the type name.
\<close>

fun match_declarations :: "Declaration list \<Rightarrow> int \<Rightarrow> PrimaryExpression \<Rightarrow> error + PrimaryExpression" where
  "match_declarations [] vid p = Inr p"
| "match_declarations (d # ds) vid p =
     (if decl_Name d = pe_Name p then
        (case decl_TypeName d of
           None \<Rightarrow> Inl NilDereference
         | Some tn \<Rightarrow> Inr (p\<lparr>pe_TypeDescription := tn_TypeDescription tn,
                              pe_ReferencedDeclaration := vid\<rparr>))
      else match_declarations ds vid p)"

fun body_statements :: "Statement list \<Rightarrow> PrimaryExpression \<Rightarrow> error + PrimaryExpression" where
  "body_statements [] p = Inr p"
| "body_statements (VariableDeclarationStatement vd # ss) p =
     (case match_declarations (Declarations vd) (vd_Id vd) p of
        Inl e \<Rightarrow> Inl e
      | Inr p' \<Rightarrow> body_statements ss p')"
| "body_statements (OtherStatement nt # ss) p =
     (if nt = VARIABLE_DECLARATION then Inl InterfaceConversion else body_statements ss p)"

definition enclosing_body :: "BodyNode option \<Rightarrow> PrimaryExpression \<Rightarrow> error + PrimaryExpression" where
  "enclosing_body bodyNode p =
     (case bodyNode of None \<Rightarrow> Inr p | Some bd \<Rightarrow> body_statements (Statements bd) p)"

text \<open>The Resolver is asked only while the node has no type description.\<close>

definition resolve_by_node :: "Resolver \<Rightarrow> PrimaryExpression \<Rightarrow> PrimaryExpression" where
  "resolve_by_node R p =
     (if pe_TypeDescription p = None then
        (case R (PrimaryExpressionNode p) (pe_Name p) of
           Some (ref_id, ref_td) \<Rightarrow> p\<lparr>pe_ReferencedDeclaration := ref_id, pe_TypeDescription := ref_td\<rparr>
         | None \<Rightarrow> p)
      else p)"

definition parse_identifier ::
  "Resolver \<Rightarrow> FnNode option \<Rightarrow> BodyNode option \<Rightarrow> string \<Rightarrow> PrimaryExpression
     \<Rightarrow> error + PrimaryExpression" where
  "parse_identifier R fnNode bodyNode name p =
     (case enclosing_parameters fnNode (p\<lparr>pe_Name := name\<rparr>) of
        Inl e \<Rightarrow> Inl e
      | Inr p1 \<Rightarrow>
          (case enclosing_body bodyNode p1 of
             Inl e \<Rightarrow> Inl e
           | Inr p2 \<Rightarrow> Inr (resolve_by_node R p2)))"

text \<open>The literals.\<close>

definition unquote :: "string \<Rightarrow> string" where
  "unquote s = TrimSpace (ReplaceAll s (CHR 0x22) [])"

definition rational :: "int \<Rightarrow> int \<Rightarrow> string" where
  "rational numerator denominator =
     ''t_rational_'' @ Sprintf_d numerator @ ''_by_'' @ Sprintf_d denominator"

definition number_literal :: "(nat \<Rightarrow> int) \<Rightarrow> string \<Rightarrow> PrimaryExpression \<Rightarrow> error + PrimaryExpression" where
  "number_literal ovf text p =
     (let p1 = p\<lparr>Kind := NUMBER, Value := unquote text\<rparr>;
          p2 = p1\<lparr>HexValue := EncodeToString (Value p1)\<rparr>
      in if Contains (Value p2) (CHR ''.'') then
           (case Split (Value p2) (CHR ''.'') of
              part0 # part1 # _ \<Rightarrow>
                (let numerator = fst (Atoi (part0 @ part1));
                     denominator = pow10_int ovf (length part1)
                 in Inr (p2\<lparr>pe_TypeDescription :=
                      Some \<lparr>TypeIdentifier = rational numerator denominator,
                            TypeString = ''fixed_const '' @ text\<rparr>\<rparr>))
            | _ \<Rightarrow> Inl IndexOutOfRange)
         else
           (let numerator = fst (Atoi (Value p2));
                denominator = 1
            in Inr (p2\<lparr>pe_TypeDescription :=
                 Some \<lparr>TypeIdentifier = rational numerator denominator,
                       TypeString = ''int_const '' @ text\<rparr>\<rparr>)))"

definition parse_literal ::
  "(nat \<Rightarrow> int) \<Rightarrow> ExpNode option \<Rightarrow> PrimaryExpressionContext \<Rightarrow> LiteralContext
     \<Rightarrow> PrimaryExpression \<Rightarrow> error + PrimaryExpression" where
  "parse_literal ovf expNode ctx literalCtx p0 =
     (let p = p0\<lparr>pe_NodeType := LITERAL, IsPure := True\<rparr>
      in case BooleanLiteral literalCtx of
           Some text \<Rightarrow>
             (let p1 = (if pe_Name p = ''true'' \<or> pe_Name p = ''false'' then p\<lparr>pe_Name := []\<rparr> else p);
                  p2 = p1\<lparr>Kind := BOOLEAN, Value := unquote text\<rparr>;
                  p3 = p2\<lparr>HexValue := EncodeToString (Value p2)\<rparr>
              in Inr (p3\<lparr>pe_TypeDescription :=
                   Some \<lparr>TypeIdentifier = ''t_bool'', TypeString = ''bool''\<rparr>\<rparr>))
         | None \<Rightarrow>
        (case StringLiteral literalCtx of
           Some text \<Rightarrow>
             (let p1 = p\<lparr>pe_Name := [], Kind := STRING, Value := unquote text\<rparr>;
                  p2 = p1\<lparr>HexValue := EncodeToString (Value p1)\<rparr>
              in Inr (p2\<lparr>pe_TypeDescription :=
                   Some \<lparr>TypeIdentifier = ''t_string_literal'',
                         TypeString = ''literal_string '' @ text\<rparr>\<rparr>))
         | None \<Rightarrow>
        (case NumberLiteral literalCtx of
           Some text \<Rightarrow> number_literal ovf text p
         | None \<Rightarrow>
        (case HexStringLiteral literalCtx of
           Some hex \<Rightarrow>
             (case StringLiteral literalCtx of
                None \<Rightarrow> Inl NilDereference
              | Some text \<Rightarrow>
                  (let p1 = p\<lparr>Kind := HEX_STRING, Value := unquote text\<rparr>;
                       p2 = p1\<lparr>HexValue := EncodeToString (Value p1)\<rparr>
                   in Inr (p2\<lparr>pe_TypeDescription :=
                        Some \<lparr>TypeIdentifier = ''t_string_hex_literal'',
                              TypeString = ''literal_hex_string '' @ text\<rparr>\<rparr>)))
         | None \<Rightarrow>
             (let p1 = (if pec_Text ctx = ''msg'' then p\<lparr>pe_TypeDescription := Some magic_message\<rparr> else p)
              in case pe_TypeDescription p1 of
                   None \<Rightarrow> Inl NilDereference
                 | Some td \<Rightarrow>
                     (if TypeString td = [] then
                        (case expNode of
                           Some e \<Rightarrow> Inr (p1\<lparr>pe_TypeDescription := exp_TypeDescription e\<rparr>)
                         | None \<Rightarrow> Inr p1)
                      else Inr p1))))))"

text \<open>
  \<open>PrimaryExpression.Parse\<close>. The receiver \<open>p\<close> and the builder are passed and
  returned; \<open>unit_td\<close> is \<open>unit.GetTypeDescription()\<close>. The contract node is not read.
\<close>

definition PrimaryExpression_Parse ::
  "Resolver \<Rightarrow> (nat \<Rightarrow> int) \<Rightarrow> TypeDescription option \<Rightarrow> FnNode option \<Rightarrow> BodyNode option
     \<Rightarrow> VariableDeclaration option \<Rightarrow> ExpNode option \<Rightarrow> PrimaryExpressionContext
     \<Rightarrow> PrimaryExpression \<times> ASTBuilder \<Rightarrow> error + PrimaryExpression \<times> ASTBuilder" where
  "PrimaryExpression_Parse R ovf unit_td fnNode bodyNode vDeclar expNode ctx pb =
     (let (p, b) = pb;
          (i, b') = GetNextID b
      in case ParentIndexOf expNode vDeclar bodyNode of
           Inl e \<Rightarrow> Inl e
         | Inr parent \<Rightarrow>
             (let p1 = p\<lparr>pe_Src := SrcOf i (pec_Start ctx) (pec_Stop ctx) parent\<rparr>;
                  p2 = magic_globals unit_td ctx p1;
                  p3 = argument_types expNode p2
              in case (case Identifier ctx of
                         None \<Rightarrow> Inr p3
                       | Some name \<Rightarrow> parse_identifier R fnNode bodyNode name p3) of
                   Inl e \<Rightarrow> Inl e
                 | Inr p4 \<Rightarrow>
                     (if pe_Name p4 = ''_'' then Inr (p4\<lparr>pe_NodeType := PLACEHOLDER_STATEMENT\<rparr>, b')
                      else
                        (case Literal ctx of
                           None \<Rightarrow> Inr (p4, b')
                         | Some literalCtx \<Rightarrow>
                             (case parse_literal ovf expNode ctx literalCtx p4 of
                                Inl e \<Rightarrow> Inl e
                              | Inr p5 \<Rightarrow> Inr (p5, b'))))))"

section \<open>The type-name translator\<close>

definition NewTypeName :: "TypeName" where
  "NewTypeName = TypeName 0 NT_DEFAULT zero_SrcNode [] None None None None M_DEFAULT 0"

text \<open>
  The type description of a mapping, from the key and value type names stored in the
  node: both pointers and both of their type descriptions are dereferenced.
\<close>

definition mapping_TypeDescription :: "TypeName \<Rightarrow> error + TypeDescription" where
  "mapping_TypeDescription node =
     (case KeyType node of
        None \<Rightarrow> Inl NilDereference
      | Some k \<Rightarrow>
     (case ValueType node of
        None \<Rightarrow> Inl NilDereference
      | Some v \<Rightarrow>
     (case tn_TypeDescription k of
        None \<Rightarrow> Inl NilDereference
      | Some kd \<Rightarrow>
     (case tn_TypeDescription v of
        None \<Rightarrow> Inl NilDereference
      | Some vd \<Rightarrow>
          Inr \<lparr>TypeIdentifier = ''t_mapping_$'' @ TypeIdentifier kd @ ''_$'' @ TypeIdentifier vd @ ''$'',
               TypeString = ''mapping('' @ tn_Name k @ '' => '' @ tn_Name v @ '')''\<rparr>))))"

definition normalized :: "Normalizer \<Rightarrow> string \<Rightarrow> TypeDescription" where
  "normalized norm spelling =
     (let (normalizedTypeName, normalizedTypeIdentifier) = norm spelling
      in \<lparr>TypeIdentifier = normalizedTypeIdentifier, TypeString = normalizedTypeName\<rparr>)"

text \<open>The end of \<open>generateTypeName\<close>: the Resolver, while there is no type description.\<close>

definition discover_reference :: "Resolver \<Rightarrow> TypeName \<Rightarrow> TypeName" where
  "discover_reference R typeName =
     (if tn_TypeDescription typeName = None then
        (case R (TypeNameNode typeName) (tn_Name typeName) of
           Some (ref_id, ref_td) \<Rightarrow> set_TypeDescription ref_td (set_ReferencedDeclaration ref_id typeName)
         | None \<Rightarrow> typeName)
      else typeName)"

text \<open>
  The argument \<open>ctx interface{}\<close> of \<open>generateTypeName\<close>, with the three types of its
  type switch.
\<close>

datatype GenerateContext =
    IMappingKeyTypeContext MappingKeyTypeContext
  | IMappingTypeContext MappingTypeContext
  | ITypeNameContext TypeNameContext

text \<open>
  \<open>generateTypeName\<close> writes through three pointers: its receiver \<open>t\<close>,
  \<open>parentNode\<close> and \<open>typeNameNode\<close>. Every call in the source passes the receiver as
  \<open>parentNode\<close> (\<open>parseTypeName\<close> and \<open>parseMappingTypeName\<close> call it with
  \<open>t, t\<close>, and the calls inside hand \<open>parentNode\<close> on), so the model has the receiver
  for both. \<open>typeNameNode\<close> is the receiver again, or the node that a surrounding call
  is building and that nothing else points to yet: \<open>None\<close> stands for the receiver,
  \<open>Some n\<close> for a separate node of value \<open>n\<close>.
\<close>

definition deref :: "TypeName option \<Rightarrow> TypeName \<Rightarrow> TypeName" where
  "deref typeNameNode t = (case typeNameNode of None \<Rightarrow> t | Some n \<Rightarrow> n)"

definition assign ::
  "(TypeName \<Rightarrow> TypeName) \<Rightarrow> TypeName option \<times> TypeName \<Rightarrow> TypeName option \<times> TypeName" where
  "assign f nt =
     (case nt of (None, t) \<Rightarrow> (None, f t) | (Some n, t) \<Rightarrow> (Some (f n), t))"

text \<open>
  \<open>parseTypeName R norm parentNodeId ctx (t, b)\<close> returns the receiver and the
  builder. \<open>generateTypeName R norm ctx typeNameNode (t, b)\<close> returns the new node, the
  value of \<open>typeNameNode\<close> after the call, the receiver and the builder.
\<close>

text \<open>The productions below a production are smaller: the recursion ends.\<close>

lemma first_MappingType_size:
  "first_MappingType cs = Some m \<Longrightarrow> size m < size_list size cs"
  by (induction cs) (auto split: TypeNameChild.splits)

lemma MappingType_size: "MappingType ctx = Some m \<Longrightarrow> size m < size ctx"
  by (cases ctx) (auto simp: MappingType_def dest: first_MappingType_size)

lemma GetValue_size: "size (GetValue m) < size m"
  by (cases m) simp

function parseTypeName ::
  "Resolver \<Rightarrow> Normalizer \<Rightarrow> int \<Rightarrow> TypeNameContext \<Rightarrow> TypeName \<times> ASTBuilder
     \<Rightarrow> error + TypeName \<times> ASTBuilder"
and generateTypeName ::
  "Resolver \<Rightarrow> Normalizer \<Rightarrow> GenerateContext \<Rightarrow> TypeName option \<Rightarrow> TypeName \<times> ASTBuilder
     \<Rightarrow> error + TypeName \<times> TypeName \<times> TypeName \<times> ASTBuilder"
where
  "parseTypeName R norm parentNodeId ctx tb =
     (let (t, b) = tb;
          t1 = set_Name (tnc_Text ctx) t;
          (i, b1) = GetNextID b;
          t2 = set_Src (SrcOf i (tnc_Start ctx) (tnc_Stop ctx) parentNodeId) t1
      in case ElementaryTypeName ctx of
           Some e \<Rightarrow> Inr (set_TypeDescription (Some (normalized norm (etn_Text e))) t2, b1)
         | None \<Rightarrow>
        (case MappingType ctx of
           Some m \<Rightarrow>
             (case generateTypeName R norm (IMappingTypeContext m) None
                     (set_NodeType MAPPING_TYPE_NAME t2, b1) of
                Inl err \<Rightarrow> Inl err
              | Inr (discarded, node, t3, b2) \<Rightarrow> Inr (t3, b2))
         | None \<Rightarrow>
        (case FunctionTypeName ctx of
           Some f \<Rightarrow> Inl FunctionTypeNameNotSupported
         | None \<Rightarrow>
             (let t3 = set_NodeType USER_DEFINED_PATH_NAME t2
              in case IdentifierPath ctx of
                   None \<Rightarrow> Inl NilDereference
                 | Some pathCtx \<Rightarrow>
                     (let (i1, b2) = GetNextID b1;
                          (i2, b3) = GetNextID b2;
                          path = \<lparr>pn_Id = i1, pn_Name = ip_Text pathCtx,
                                  pn_NodeType = IDENTIFIER_PATH, pn_ReferencedDeclaration = 0,
                                  pn_Src = SrcOf i2 (ip_Start pathCtx) (ip_Stop pathCtx) (tn_Id t3)\<rparr>;
                          t4 = set_PathNode (Some path) t3
                      in case R (TypeNameNode t4) (ip_Text pathCtx) of
                           Some (ref_id, ref_td) \<Rightarrow>
                             Inr (set_TypeDescription ref_td
                                    (set_ReferencedDeclaration ref_id
                                       (set_PathNode (Some (path\<lparr>pn_ReferencedDeclaration := ref_id\<rparr>)) t4)),
                                  b3)
                         | None \<Rightarrow> Inr (t4, b3))))))"
| "generateTypeName R norm ctx typeNameNode tb =
     (let (t, b) = tb;
          (i, b1) = GetNextID b;
          typeName = set_NodeType ELEMENTARY_TYPE_NAME (set_Id i NewTypeName)
      in case ctx of
           IMappingKeyTypeContext specificCtx \<Rightarrow>
             (let (j, b2) = GetNextID b1;
                  typeName1 = set_Src (SrcOf j (mk_Start specificCtx) (mk_Stop specificCtx) (tn_Id t))
                                (set_Name (mk_Text specificCtx) typeName);
                  typeName2 = (case mk_ElementaryTypeName specificCtx of
                                 Some e \<Rightarrow> set_TypeDescription (Some (normalized norm (etn_Text e))) typeName1
                               | None \<Rightarrow> typeName1)
              in Inr (discover_reference R typeName2, deref typeNameNode t, t, b2))
         | IMappingTypeContext specificCtx \<Rightarrow>
             (let (node1, t1) = assign (set_NodeType MAPPING_TYPE_NAME) (typeNameNode, t)
              in case generateTypeName R norm (IMappingKeyTypeContext (GetKey specificCtx)) node1 (t1, b1) of
                   Inl err \<Rightarrow> Inl err
                 | Inr (key, n2, t2, b2) \<Rightarrow>
                (let (node3, t3) = assign (set_KeyType (Some key)) (node1, t2)
                 in case generateTypeName R norm (ITypeNameContext (GetValue specificCtx)) node3 (t3, b2) of
                      Inl err \<Rightarrow> Inl err
                    | Inr (val, n4, t4, b3) \<Rightarrow>
                   (let (node5, t5) = assign (set_ValueType (Some val)) (node3, t4)
                    in case mapping_TypeDescription (deref node5 t5) of
                         Inl err \<Rightarrow> Inl err
                       | Inr td \<Rightarrow>
                           (let (node6, t6) = assign (set_TypeDescription (Some td)) (node5, t5)
                            in Inr (discover_reference R typeName, deref node6 t6, t6, b3)))))
         | ITypeNameContext specificCtx \<Rightarrow>
             (let (j, b2) = GetNextID b1;
                  typeName1 = set_Src (SrcOf j (tnc_Start specificCtx) (tnc_Stop specificCtx) (tn_Id t))
                                (set_Name (tnc_Text specificCtx) typeName)
              in case ElementaryTypeName specificCtx of
                   Some e \<Rightarrow>
                     Inr (discover_reference R
                            (set_TypeDescription (Some (normalized norm (etn_Text e))) typeName1),
                          deref typeNameNode t, t, b2)
                 | None \<Rightarrow>
                (case MappingType specificCtx of
                   Some m \<Rightarrow>
                     (case generateTypeName R norm (IMappingTypeContext m)
                             (Some (set_NodeType MAPPING_TYPE_NAME typeName1)) (t, b2) of
                        Inl err \<Rightarrow> Inl err
                      | Inr (discarded, typeName2, t1, b3) \<Rightarrow>
                          Inr (discover_reference R typeName2, deref typeNameNode t1, t1, b3))
                 | None \<Rightarrow>
                (case FunctionTypeName specificCtx of
                   Some f \<Rightarrow> Inl FunctionTypeNameNotSupported
                 | None \<Rightarrow>
                     (case parseTypeName R norm (tn_Id t) specificCtx (t, b2) of
                        Inl err \<Rightarrow> Inl err
                      | Inr (t1, b3) \<Rightarrow>
                          Inr (discover_reference R typeName1, deref typeNameNode t1, t1, b3))))))"
  by pat_completeness auto

termination
  by (relation "measure (\<lambda>x. case x of
          Inl (R, norm, pid, ctx, tb) \<Rightarrow> 2 * size ctx
        | Inr (R, norm, ctx, node, tb) \<Rightarrow>
            (case ctx of
               IMappingKeyTypeContext k \<Rightarrow> 0
             | IMappingTypeContext m \<Rightarrow> 2 * size m + 1
             | ITypeNameContext c \<Rightarrow> 2 * size c + 1))")
     (auto dest: MappingType_size simp: GetValue_size)

declare parseTypeName.simps [simp del]
declare generateTypeName.simps [simp del]

definition parseElementaryTypeName ::
  "Normalizer \<Rightarrow> int \<Rightarrow> ElementaryTypeNameContext \<Rightarrow> TypeName \<times> ASTBuilder \<Rightarrow> TypeName \<times> ASTBuilder" where
  "parseElementaryTypeName norm parentNodeId ctx tb =
     (let (t, b) = tb;
          t1 = set_NodeType ELEMENTARY_TYPE_NAME (set_Name (etn_Text ctx) t);
          td = normalized norm (etn_Text ctx);
          t2 = (if TypeIdentifier td = ''t_address'' then set_StateMutability NONPAYABLE t1
                else if TypeIdentifier td = ''t_address_payable'' then set_StateMutability PAYABLE t1
                else t1)
      in (set_TypeDescription (Some td) t2, b))"

definition parseIdentifierPath ::
  "Resolver \<Rightarrow> int \<Rightarrow> IdentifierPathContext \<Rightarrow> TypeName \<times> ASTBuilder \<Rightarrow> TypeName \<times> ASTBuilder" where
  "parseIdentifierPath R parentNodeId ctx tb =
     (let (t, b) = tb;
          t1 = set_NodeType USER_DEFINED_PATH_NAME t
      in case AllIdentifier ctx of
           [] \<Rightarrow> (t1, b)
         | identifierCtx # others \<Rightarrow>
             (let (i1, b1) = GetNextID b;
                  (i2, b2) = GetNextID b1;
                  path = \<lparr>pn_Id = i1, pn_Name = id_Text identifierCtx,
                          pn_NodeType = IDENTIFIER_PATH, pn_ReferencedDeclaration = 0,
                          pn_Src = SrcOf i2 (id_Start identifierCtx) (id_Stop identifierCtx) (tn_Id t1)\<rparr>;
                  t2 = set_PathNode (Some path) t1
              in case R (TypeNameNode t2) (id_Text identifierCtx) of
                   Some (ref_id, ref_td) \<Rightarrow>
                     (set_TypeDescription ref_td
                        (set_ReferencedDeclaration ref_id
                           (set_PathNode (Some (path\<lparr>pn_ReferencedDeclaration := ref_id\<rparr>)) t2)),
                      b2)
                 | None \<Rightarrow> (t2, b2)))"

definition parseMappingTypeName ::
  "Resolver \<Rightarrow> Normalizer \<Rightarrow> int \<Rightarrow> MappingTypeContext \<Rightarrow> TypeName \<times> ASTBuilder
     \<Rightarrow> error + TypeName \<times> ASTBuilder" where
  "parseMappingTypeName R norm parentNodeId ctx tb =
     (case generateTypeName R norm (IMappingKeyTypeContext (GetKey ctx)) None tb of
        Inl err \<Rightarrow> Inl err
      | Inr (key, n1, t1, b1) \<Rightarrow>
     (case generateTypeName R norm (ITypeNameContext (GetValue ctx)) None
             (set_KeyType (Some key) t1, b1) of
        Inl err \<Rightarrow> Inl err
      | Inr (val, n2, t2, b2) \<Rightarrow>
          (let t3 = set_ValueType (Some val) t2
           in case mapping_TypeDescription t3 of
                Inl err \<Rightarrow> Inl err
              | Inr td \<Rightarrow> Inr (set_TypeDescription (Some td) t3, b2))))"

text \<open>
  The loop of \<open>TypeName.Parse\<close> over the children of the production. The warning that
  is logged for an array length (\<open>ctx.Expression()\<close>) changes no node and is left out.
\<close>

fun parse_children ::
  "Resolver \<Rightarrow> Normalizer \<Rightarrow> int \<Rightarrow> TypeNameChild list \<Rightarrow> TypeName \<times> ASTBuilder
     \<Rightarrow> error + TypeName \<times> ASTBuilder" where
  "parse_children R norm parentNodeId [] tb = Inr tb"
| "parse_children R norm parentNodeId (child # children) tb =
     (case (case child of
              ElementaryTypeNameChild childCtx \<Rightarrow> Inr (parseElementaryTypeName norm parentNodeId childCtx tb)
            | MappingTypeChild childCtx \<Rightarrow> parseMappingTypeName R norm parentNodeId childCtx tb
            | IdentifierPathChild childCtx \<Rightarrow> Inr (parseIdentifierPath R parentNodeId childCtx tb)
            | TypeNameChild childCtx \<Rightarrow> parseTypeName R norm parentNodeId childCtx tb
            | TerminalNodeImpl token \<Rightarrow> Inr tb
            | FunctionTypeNameChild childCtx \<Rightarrow> Inl UnknownTypeName
            | ExpressionChild childCtx \<Rightarrow> Inl UnknownTypeName) of
        Inl err \<Rightarrow> Inl err
      | Inr tb' \<Rightarrow> parse_children R norm parentNodeId children tb')"

definition TypeName_Parse ::
  "Resolver \<Rightarrow> Normalizer \<Rightarrow> int \<Rightarrow> TypeNameContext \<Rightarrow> TypeName \<times> ASTBuilder
     \<Rightarrow> error + TypeName \<times> ASTBuilder" where
  "TypeName_Parse R norm parentNodeId ctx tb =
     (let (t, b) = tb;
          (i, b1) = GetNextID b;
          t1 = set_Id i t;
          (j, b2) = GetNextID b1;
          t2 = set_Src (SrcOf j (tnc_Start ctx) (tnc_Stop ctx) parentNodeId) t1
      in parse_children R norm parentNodeId (GetChildren ctx) (t2, b2))"

section \<open>The expression-statement translator\<close>

text \<open>
  The children of an expression statement, by the types of the type switch. The
  translators of the other node kinds are not among the sources: each is a parameter,
  a function of the builder and the child production that returns its node or panics.
\<close>

datatype 'c ExpressionStatementChild =
    FunctionCallContext 'c
  | AssignmentContext 'c
  | PrimaryExpressionContextChild PrimaryExpressionContext
  | UnarySuffixOperationContext 'c
  | UnaryPrefixOperationContext 'c
  | OrderComparisonContext 'c
  | StatementTerminalNodeImpl string
  | OtherStatementChild 'c

record ('c, 'n) Translators =
  FunctionCall_Parse :: "ASTBuilder \<Rightarrow> 'c \<Rightarrow> error + 'n \<times> ASTBuilder"
  Assignment_ParseStatement :: "ASTBuilder \<Rightarrow> 'c \<Rightarrow> error + 'n \<times> ASTBuilder"
  UnarySuffixExpression_Parse :: "ASTBuilder \<Rightarrow> 'c \<Rightarrow> error + 'n \<times> ASTBuilder"
  UnaryPrefixExpression_Parse :: "ASTBuilder \<Rightarrow> 'c \<Rightarrow> error + 'n \<times> ASTBuilder"
  ParseOrderComparison :: "ASTBuilder \<Rightarrow> 'c \<Rightarrow> error + 'n \<times> ASTBuilder"

datatype 'n StatementNode =
    PrimaryExpressionStatement PrimaryExpression
  | TranslatedStatement 'n

definition returned :: "error + 'n \<times> ASTBuilder \<Rightarrow> error + 'n StatementNode option \<times> ASTBuilder" where
  "returned r = (case r of Inl err \<Rightarrow> Inl err | Inr (n, b) \<Rightarrow> Inr (Some (TranslatedStatement n), b))"

text \<open>
  \<open>parseExpressionStatement\<close>, a loop over \<open>ctx.GetChildren()\<close>: the first child that
  is no terminal decides; a statement of terminals only gives nil (\<open>None\<close>).
\<close>

fun parseExpressionStatement ::
  "('c, 'n) Translators \<Rightarrow> Resolver \<Rightarrow> (nat \<Rightarrow> int) \<Rightarrow> TypeDescription option \<Rightarrow> FnNode option
     \<Rightarrow> BodyNode option \<Rightarrow> ExpNode option \<Rightarrow> 'c ExpressionStatementChild list \<Rightarrow> ASTBuilder
     \<Rightarrow> error + 'n StatementNode option \<times> ASTBuilder" where
  "parseExpressionStatement T R ovf unit_td fnNode bodyNode parentNode [] b = Inr (None, b)"
| "parseExpressionStatement T R ovf unit_td fnNode bodyNode parentNode (child # children) b =
     (case child of
        FunctionCallContext childCtx \<Rightarrow> returned (FunctionCall_Parse T b childCtx)
      | AssignmentContext childCtx \<Rightarrow> returned (Assignment_ParseStatement T b childCtx)
      | PrimaryExpressionContextChild childCtx \<Rightarrow>
          (case PrimaryExpression_Parse R ovf unit_td fnNode bodyNode None parentNode childCtx
                  (NewPrimaryExpression b) of
             Inl err \<Rightarrow> Inl err
           | Inr (p, b') \<Rightarrow> Inr (Some (PrimaryExpressionStatement p), b'))
      | UnarySuffixOperationContext childCtx \<Rightarrow> returned (UnarySuffixExpression_Parse T b childCtx)
      | UnaryPrefixOperationContext childCtx \<Rightarrow> returned (UnaryPrefixExpression_Parse T b childCtx)
      | OrderComparisonContext childCtx \<Rightarrow> returned (ParseOrderComparison T b childCtx)
      | StatementTerminalNodeImpl token \<Rightarrow>
          parseExpressionStatement T R ovf unit_td fnNode bodyNode parentNode children b
      | OtherStatementChild childCtx \<Rightarrow> Inl ExpressionStatementChildNotRecognized)"

section \<open>Worked inputs\<close>

text \<open>Concrete productions and scope nodes, for the worked examples below.\<close>

definition token_at :: "int \<Rightarrow> int \<Rightarrow> Token" where
  "token_at start stop = \<lparr>tok_Line = 1, tok_Column = start, tok_Start = start, tok_Stop = stop\<rparr>"

definition identifier_production :: "string \<Rightarrow> PrimaryExpressionContext" where
  "identifier_production name =
     \<lparr>pec_Text = name, pec_Start = token_at 40 (39 + int (length name)),
      pec_Stop = token_at 40 (39 + int (length name)), Identifier = Some name, Literal = None\<rparr>"

definition number_production :: "string \<Rightarrow> PrimaryExpressionContext" where
  "number_production lexeme =
     \<lparr>pec_Text = lexeme, pec_Start = token_at 40 (39 + int (length lexeme)),
      pec_Stop = token_at 40 (39 + int (length lexeme)), Identifier = None,
      Literal = Some \<lparr>BooleanLiteral = None, StringLiteral = None,
                      NumberLiteral = Some lexeme, HexStringLiteral = None\<rparr>\<rparr>"

definition hex_string_production :: "string \<Rightarrow> PrimaryExpressionContext" where
  "hex_string_production lexeme =
     \<lparr>pec_Text = lexeme, pec_Start = token_at 40 (39 + int (length lexeme)),
      pec_Stop = token_at 40 (39 + int (length lexeme)), Identifier = None,
      Literal = Some \<lparr>BooleanLiteral = None, StringLiteral = None,
                      NumberLiteral = None, HexStringLiteral = Some lexeme\<rparr>\<rparr>"

definition no_Resolver :: Resolver where
  "no_Resolver node name = None"

definition empty_body :: BodyNode where
  "empty_body = \<lparr>body_Id = 3, Statements = []\<rparr>"

definition builder_100 :: ASTBuilder where
  "builder_100 = \<lparr>nextID = 100\<rparr>"

section \<open>Properties of the primary-expression translator\<close>

subsection \<open>What the identifier steps leave alone\<close>

lemma match_parameters_fields [simp]:
  "pe_Name (match_parameters ps p) = pe_Name p"
  "pe_NodeType (match_parameters ps p) = pe_NodeType p"
  "Kind (match_parameters ps p) = Kind p"
  "Value (match_parameters ps p) = Value p"
  "HexValue (match_parameters ps p) = HexValue p"
  "IsPure (match_parameters ps p) = IsPure p"
  "pe_Id (match_parameters ps p) = pe_Id p"
  "pe_Src (match_parameters ps p) = pe_Src p"
  by (induction ps; auto split: option.splits)+

lemma match_declarations_fields:
  "match_declarations ds vid p = Inr p' \<Longrightarrow>
     pe_Name p' = pe_Name p \<and> pe_NodeType p' = pe_NodeType p \<and> Kind p' = Kind p \<and>
     Value p' = Value p \<and> HexValue p' = HexValue p \<and> IsPure p' = IsPure p \<and>
     pe_Id p' = pe_Id p \<and> pe_Src p' = pe_Src p"
  by (induction ds) (auto split: option.splits if_splits)

lemma body_statements_fields:
  "body_statements ss p = Inr p' \<Longrightarrow>
     pe_Name p' = pe_Name p \<and> pe_NodeType p' = pe_NodeType p \<and> Kind p' = Kind p \<and>
     Value p' = Value p \<and> HexValue p' = HexValue p \<and> IsPure p' = IsPure p \<and>
     pe_Id p' = pe_Id p \<and> pe_Src p' = pe_Src p"
proof (induction ss p rule: body_statements.induct)
  case (1 p)
  then show ?case by simp
next
  case (2 vd ss p)
  then show ?case by (auto split: sum.splits dest!: match_declarations_fields)
next
  case (3 nt ss p)
  then show ?case by (auto split: if_splits)
qed

lemma resolve_by_node_fields [simp]:
  "pe_Name (resolve_by_node R p) = pe_Name p"
  "pe_NodeType (resolve_by_node R p) = pe_NodeType p"
  "Kind (resolve_by_node R p) = Kind p"
  "Value (resolve_by_node R p) = Value p"
  "HexValue (resolve_by_node R p) = HexValue p"
  "IsPure (resolve_by_node R p) = IsPure p"
  "pe_Id (resolve_by_node R p) = pe_Id p"
  "pe_Src (resolve_by_node R p) = pe_Src p"
  by (simp_all add: resolve_by_node_def split: option.splits)

lemma parse_identifier_fields:
  "parse_identifier R fnNode bodyNode name p = Inr p' \<Longrightarrow>
     pe_Name p' = name \<and> pe_NodeType p' = pe_NodeType p \<and> Kind p' = Kind p \<and>
     Value p' = Value p \<and> HexValue p' = HexValue p \<and> IsPure p' = IsPure p \<and>
     pe_Id p' = pe_Id p \<and> pe_Src p' = pe_Src p"
  by (auto simp: parse_identifier_def enclosing_parameters_def enclosing_body_def
           split: sum.splits option.splits FnNode.splits dest!: body_statements_fields)

lemma magic_globals_fields [simp]:
  "pe_NodeType (magic_globals u ctx p) = pe_NodeType p"
  "Kind (magic_globals u ctx p) = Kind p"
  "Value (magic_globals u ctx p) = Value p"
  "HexValue (magic_globals u ctx p) = HexValue p"
  "IsPure (magic_globals u ctx p) = IsPure p"
  "pe_Id (magic_globals u ctx p) = pe_Id p"
  "pe_Src (magic_globals u ctx p) = pe_Src p"
  "pe_Name (magic_globals u ctx p) = pe_Name p"
  "pe_ReferencedDeclaration (magic_globals u ctx p) = pe_ReferencedDeclaration p"
  by (simp_all add: magic_globals_def Let_def)

lemma argument_types_fields [simp]:
  "pe_NodeType (argument_types e p) = pe_NodeType p"
  "Kind (argument_types e p) = Kind p"
  "Value (argument_types e p) = Value p"
  "HexValue (argument_types e p) = HexValue p"
  "IsPure (argument_types e p) = IsPure p"
  "pe_Id (argument_types e p) = pe_Id p"
  "pe_Src (argument_types e p) = pe_Src p"
  "pe_Name (argument_types e p) = pe_Name p"
  "pe_ReferencedDeclaration (argument_types e p) = pe_ReferencedDeclaration p"
  "pe_TypeDescription (argument_types e p) = pe_TypeDescription p"
  by (simp_all add: argument_types_def split: option.splits ExpNode.splits)

subsection \<open>The stages of Parse\<close>

text \<open>The node as it stands when the identifier of the production is looked at.\<close>

definition before_identifier ::
  "TypeDescription option \<Rightarrow> ExpNode option \<Rightarrow> PrimaryExpressionContext \<Rightarrow> int \<Rightarrow> int
     \<Rightarrow> PrimaryExpression \<Rightarrow> PrimaryExpression" where
  "before_identifier unit_td expNode ctx i parent p =
     argument_types expNode
       (magic_globals unit_td ctx (p\<lparr>pe_Src := SrcOf i (pec_Start ctx) (pec_Stop ctx) parent\<rparr>))"

lemma Parse_Inr_D:
  assumes "PrimaryExpression_Parse R ovf unit_td fnNode bodyNode vDeclar expNode ctx (p, b) = Inr (p', b')"
  shows "\<exists>parent p4.
    ParentIndexOf expNode vDeclar bodyNode = Inr parent \<and>
    (case Identifier ctx of
        None \<Rightarrow> Inr (before_identifier unit_td expNode ctx (nextID b) parent p)
      | Some name \<Rightarrow>
          parse_identifier R fnNode bodyNode name
            (before_identifier unit_td expNode ctx (nextID b) parent p)) = Inr p4 \<and>
    b' = b\<lparr>nextID := nextID b + 1\<rparr> \<and>
    (if pe_Name p4 = ''_'' then p' = p4\<lparr>pe_NodeType := PLACEHOLDER_STATEMENT\<rparr>
     else case Literal ctx of
            None \<Rightarrow> p' = p4
          | Some lit \<Rightarrow> parse_literal ovf expNode ctx lit p4 = Inr p')"
  using assms
  unfolding PrimaryExpression_Parse_def before_identifier_def Let_def GetNextID_def
  by (auto split: sum.splits prod.splits option.splits if_splits)

subsection \<open>Hex-string literals\<close>

text \<open>
  C9. For a hex-string literal, Parse reads the text of the string-literal accessor and
  never that of the hex-string accessor. The branch is reached only when the
  string-literal accessor is nil, so for every literal production (no identifier child)
  whose only literal child is a hex string, Parse on a new node panics with a nil
  dereference and produces no node, whatever the scopes and the Resolver are.
\<close>

theorem hex_string_literal_nil_dereference:
  assumes "Identifier ctx = None"
    and "Literal ctx = Some literalCtx"
    and "BooleanLiteral literalCtx = None"
    and "StringLiteral literalCtx = None"
    and "NumberLiteral literalCtx = None"
    and "HexStringLiteral literalCtx = Some hex"
  shows "PrimaryExpression_Parse R ovf unit_td fnNode bodyNode vDeclar expNode ctx (NewPrimaryExpression b)
           = Inl NilDereference
         \<and> parse_literal ovf expNode ctx (literalCtx\<lparr>HexStringLiteral := Some hex'\<rparr>) p
           = parse_literal ovf expNode ctx literalCtx p"
  using assms
  by (auto simp: PrimaryExpression_Parse_def Let_def GetNextID_def NewPrimaryExpression_def
                 parse_literal_def ParentIndexOf_def
           split: sum.splits prod.splits option.splits if_splits)

theorem hex_string_literal_nil_dereference_witness:
  "PrimaryExpression_Parse no_Resolver (\<lambda>n. 0) None None (Some empty_body) None None
     (hex_string_production (''hex'' @ [CHR 0x22] @ ''00ff'' @ [CHR 0x22]))
     (NewPrimaryExpression builder_100) = Inl NilDereference"
  using hex_string_literal_nil_dereference
    [of "hex_string_production (''hex'' @ [CHR 0x22] @ ''00ff'' @ [CHR 0x22])"
        "\<lparr>BooleanLiteral = None, StringLiteral = None, NumberLiteral = None,
          HexStringLiteral = Some (''hex'' @ [CHR 0x22] @ ''00ff'' @ [CHR 0x22])\<rparr>"
        "''hex'' @ [CHR 0x22] @ ''00ff'' @ [CHR 0x22]"
        no_Resolver "\<lambda>n. 0" None None "Some empty_body" None None builder_100]
  by (simp add: hex_string_production_def)

end
